theory Spec2Isabelle
  imports Main "HOL-Library.Sublist"
begin

section \<open>The Abstract Factory example: furniture factories and their products\<close>

text \<open>
  The module \<^verbatim>\<open>Creational/Abstract_factory.py\<close> declares three abstract base
  classes (\<^verbatim>\<open>FurnitureFactory\<close>, \<^verbatim>\<open>Chair\<close>, \<^verbatim>\<open>Sofa\<close>) whose methods are all
  abstract, so none of them can be instantiated, and two concrete subclasses of each.
  No class has an attribute or a constructor argument: an object is determined by its
  class. Each abstract class is therefore a datatype with one constructor per concrete
  subclass, named as in the source (including the spelling \<^verbatim>\<open>ModernFuniture\<close>).
  A method becomes a function on the receiver with one equation per overriding class,
  which is the dynamic dispatch of the call.

  A sofa's \<^verbatim>\<open>can_sit\<close> takes its collaborator as a \<^verbatim>\<open>Chair\<close>, not as one of the
  two chairs of the module, and only calls the collaborator's \<^verbatim>\<open>can_sit\<close>. So the
  type of chairs is open: besides the two classes of the module it holds every other
  implementation of \<^verbatim>\<open>Chair\<close>, given by the name of its class and by the
  sentence its \<^verbatim>\<open>can_sit\<close> returns. The sentence is any string at all, as the
  interface allows; an implementation whose \<^verbatim>\<open>can_sit\<close> raises or returns no
  string is not a chair here.
\<close>

datatype FurnitureFactory = ClassicalFurniture | ModernFuniture

datatype Chair = ClassicalChair | ModernChair | OtherChair string string

datatype Sofa = ClassicalSofa | ModernSofa

subsection \<open>The factories\<close>

fun create_chair :: "FurnitureFactory \<Rightarrow> Chair" where
  "create_chair ClassicalFurniture = ClassicalChair"
| "create_chair ModernFuniture = ModernChair"

fun create_sofa :: "FurnitureFactory \<Rightarrow> Sofa" where
  "create_sofa ClassicalFurniture = ClassicalSofa"
| "create_sofa ModernFuniture = ModernSofa"

subsection \<open>The products\<close>

text \<open>
  \<^verbatim>\<open>Chair.can_sit\<close> and \<^verbatim>\<open>Sofa.can_sit\<close> share a name in the source and differ in
  their receiver; here the receiver's class is a prefix of the name.
\<close>

fun Chair_can_sit :: "Chair \<Rightarrow> string" where
  "Chair_can_sit ClassicalChair = ''You can sit on it from Classical Chair''"
| "Chair_can_sit ModernChair = ''You can sit on it from Modern Chair''"
| "Chair_can_sit (OtherChair class_name sentence) = sentence"

text \<open>
  The sofa's \<^verbatim>\<open>can_sit\<close> first calls the collaborator's \<^verbatim>\<open>can_sit\<close> and then
  formats an f-string around the result; a replacement field holding a \<^verbatim>\<open>str\<close>
  with no format specification inserts the string unchanged. The literal of
  \<^verbatim>\<open>ClassicalSofa\<close> reads \<^verbatim>\<open>collabortaor\<close> in the source.
\<close>

fun Sofa_can_sit :: "Sofa \<Rightarrow> Chair \<Rightarrow> string" where
  "Sofa_can_sit ClassicalSofa collaborator =
     (let result = Chair_can_sit collaborator
      in ''You can sit on it from Classical sofa, with collabortaor ('' @ result @ '')'')"
| "Sofa_can_sit ModernSofa collaborator =
     (let result = Chair_can_sit collaborator
      in ''You can sit on it from Modern sofa, with collaborator ('' @ result @ '')'')"

fun can_sleep :: "Sofa \<Rightarrow> string" where
  "can_sleep ClassicalSofa = ''you can sleep from Classical sofa''"
| "can_sleep ModernSofa = ''You can sleep from Modern sofa''"

subsection \<open>The client\<close>

text \<open>
  The only effect of the program is writing to standard output. The output is the
  stream of characters written so far, passed in and returned; \<^verbatim>\<open>print(s)\<close> with
  one argument writes \<^verbatim>\<open>s\<close> and a line feed.
\<close>

definition newline :: char where
  "newline = CHR 0x0A"

definition print :: "string \<Rightarrow> string \<Rightarrow> string" where
  "print s out = out @ s @ [newline]"

definition client_code :: "FurnitureFactory \<Rightarrow> string \<Rightarrow> string" where
  "client_code factory out =
     (let chair = create_chair factory;
          sofa = create_sofa factory;
          out1 = print (can_sleep sofa) out;
          out2 = print (Sofa_can_sit sofa chair) out1
      in out2)"

subsection \<open>Vocabulary of the properties\<close>

text \<open>
  The properties speak of the variant of a factory or product and of its name. The
  variant is read off the class; a chair that is neither of the module's two has none.
\<close>

datatype Variant = Classical | Modern

fun variant_name :: "Variant \<Rightarrow> string" where
  "variant_name Classical = ''Classical''"
| "variant_name Modern = ''Modern''"

fun factory_variant :: "FurnitureFactory \<Rightarrow> Variant" where
  "factory_variant ClassicalFurniture = Classical"
| "factory_variant ModernFuniture = Modern"

fun chair_variant :: "Chair \<Rightarrow> Variant option" where
  "chair_variant ClassicalChair = Some Classical"
| "chair_variant ModernChair = Some Modern"
| "chair_variant (OtherChair class_name sentence) = None"

fun sofa_variant :: "Sofa \<Rightarrow> Variant" where
  "sofa_variant ClassicalSofa = Classical"
| "sofa_variant ModernSofa = Modern"

text \<open>
  The lines of an output stream: each line feed ends a line; characters after the last
  line feed form a final line when there are any.
\<close>

fun lines_from :: "string \<Rightarrow> string \<Rightarrow> string list" where
  "lines_from cur [] = (if cur = [] then [] else [cur])"
| "lines_from cur (c # cs) =
     (if c = newline then cur # lines_from [] cs else lines_from (cur @ [c]) cs)"

definition lines_of :: "string \<Rightarrow> string list" where
  "lines_of out = lines_from [] out"


text \<open>
  The text a sentence carries between its first opening parenthesis and the next
  closing one.
\<close>

definition embedded :: "string \<Rightarrow> string" where
  "embedded s =
     takeWhile (\<lambda>c. c \<noteq> CHR '')'') (drop 1 (dropWhile (\<lambda>c. c \<noteq> CHR ''('') s))"

subsection \<open>The shape of a sofa's sentence\<close>

text \<open>
  Whatever the collaborator, a sofa's sentence is a lead fixed by the sofa's class,
  then the collaborator's sentence in parentheses.
\<close>

lemma Sofa_can_sit_shape:
  "\<exists>lead. \<forall>c. Sofa_can_sit S c = lead @ ''('' @ Chair_can_sit c @ '')''"
proof (cases S)
  case ClassicalSofa
  have "\<forall>c. Sofa_can_sit ClassicalSofa c =
          ''You can sit on it from Classical sofa, with collabortaor ''
            @ ''('' @ Chair_can_sit c @ '')''"
    by (simp add: Let_def)
  with ClassicalSofa show ?thesis by blast
next
  case ModernSofa
  have "\<forall>c. Sofa_can_sit ModernSofa c =
          ''You can sit on it from Modern sofa, with collaborator ''
            @ ''('' @ Chair_can_sit c @ '')''"
    by (simp add: Let_def)
  with ModernSofa show ?thesis by blast
qed


lemma Sofa_can_sit_contains_chair:
  "sublist (Chair_can_sit c) (Sofa_can_sit S c)"
proof -
  obtain lead where "Sofa_can_sit S c = lead @ ''('' @ Chair_can_sit c @ '')''"
    using Sofa_can_sit_shape by blast
  then have "Sofa_can_sit S c = (lead @ ''('') @ Chair_can_sit c @ '')''"
    by simp
  then show ?thesis
    by (simp only: sublist_appendI)
qed

subsection \<open>Counting occurrences\<close>


section \<open>Properties\<close>

text \<open>
  C1. Each concrete factory constructs both of its products from its own variant:
  the classical factory returns a classical chair and a classical sofa, the modern
  factory a modern chair and a modern sofa; hence the chair and the sofa of one
  factory never differ in variant.
\<close>

theorem factory_products_same_variant:
  "create_chair ClassicalFurniture = ClassicalChair
   \<and> create_sofa ClassicalFurniture = ClassicalSofa
   \<and> create_chair ModernFuniture = ModernChair
   \<and> create_sofa ModernFuniture = ModernSofa
   \<and> chair_variant (create_chair F) = Some (factory_variant F)
   \<and> sofa_variant (create_sofa F) = factory_variant F
   \<and> chair_variant (create_chair F) = Some (sofa_variant (create_sofa F))"
  by (cases F) simp_all

text \<open>
  C2. The client run on the classical factory appends two lines to the output, in this
  order: the classical sofa's \<^verbatim>\<open>can_sleep\<close> sentence, then its \<^verbatim>\<open>can_sit\<close>
  sentence around the classical chair's. Started on an empty output, the output has
  exactly these two lines.
\<close>

theorem client_code_classical_output:
  "client_code ClassicalFurniture out =
     out @ ''you can sleep from Classical sofa'' @ [newline]
       @ ''You can sit on it from Classical sofa, with collabortaor (You can sit on it from Classical Chair)''
       @ [newline]
   \<and> lines_of (client_code ClassicalFurniture []) =
     [''you can sleep from Classical sofa'',
      ''You can sit on it from Classical sofa, with collabortaor (You can sit on it from Classical Chair)'']"
  by (simp add: client_code_def print_def lines_of_def newline_def)

text \<open>
  C3. The client run on the modern factory appends two lines to the output, in this
  order: the modern sofa's \<^verbatim>\<open>can_sleep\<close> sentence, then its \<^verbatim>\<open>can_sit\<close> sentence
  around the modern chair's. Started on an empty output, the output has exactly these
  two lines.
\<close>

theorem client_code_modern_output:
  "client_code ModernFuniture out =
     out @ ''You can sleep from Modern sofa'' @ [newline]
       @ ''You can sit on it from Modern sofa, with collaborator (You can sit on it from Modern Chair)''
       @ [newline]
   \<and> lines_of (client_code ModernFuniture []) =
     [''You can sleep from Modern sofa'',
      ''You can sit on it from Modern sofa, with collaborator (You can sit on it from Modern Chair)'']"
  by (simp add: client_code_def print_def lines_of_def newline_def)

text \<open>
  C4. For either factory, the sentence its sofa returns from \<^verbatim>\<open>can_sit\<close> on its
  chair contains the chair's own \<^verbatim>\<open>can_sit\<close> sentence as a contiguous block.
\<close>

theorem paired_sofa_embeds_chair_sentence:
  "sublist (Chair_can_sit (create_chair F))
     (Sofa_can_sit (create_sofa F) (create_chair F))"
  by (rule Sofa_can_sit_contains_chair)

text \<open>
  C5. The classical sofa's \<^verbatim>\<open>can_sit\<close> does interpolate the collaborator's sentence
  between parentheses, but the sentence around it is spelt \<^verbatim>\<open>collabortaor\<close>: for
  every chair the result differs from the template spelt \<^verbatim>\<open>collaborator\<close>, which is
  the spelling \<^verbatim>\<open>ModernSofa\<close> uses. The result on the classical chair is given in
  full.
\<close>

theorem ClassicalSofa_can_sit_spelling:
  "Sofa_can_sit ClassicalSofa c =
     ''You can sit on it from Classical sofa, with collabortaor ('' @ Chair_can_sit c @ '')''
   \<and> Sofa_can_sit ClassicalSofa c \<noteq>
     ''You can sit on it from Classical sofa, with collaborator ('' @ Chair_can_sit c @ '')''
   \<and> Sofa_can_sit ClassicalSofa ClassicalChair =
     ''You can sit on it from Classical sofa, with collabortaor (You can sit on it from Classical Chair)''
   \<and> Sofa_can_sit ModernSofa c =
     ''You can sit on it from Modern sofa, with collaborator ('' @ Chair_can_sit c @ '')''"
  by (simp add: Let_def)

text \<open>
  C6. For either factory, the \<^verbatim>\<open>can_sit\<close> sentence of its chair contains the name
  of the factory's variant and the word \<^verbatim>\<open>Chair\<close>.
\<close>

theorem chair_sentence_names_variant:
  "sublist (variant_name (factory_variant F)) (Chair_can_sit (create_chair F))
   \<and> sublist ''Chair'' (Chair_can_sit (create_chair F))"
  by (cases F) (simp_all add: sublist_Cons_right)

text \<open>
  C7. For either factory, the \<^verbatim>\<open>can_sleep\<close> sentence of its sofa contains the name
  of the factory's variant and the word \<^verbatim>\<open>sofa\<close>.
\<close>

theorem sofa_sleep_sentence_names_variant:
  "sublist (variant_name (factory_variant F)) (can_sleep (create_sofa F))
   \<and> sublist ''sofa'' (can_sleep (create_sofa F))"
  by (cases F) (simp_all add: sublist_Cons_right)

text \<open>
  C8. A sofa accepts a chair of the other variant. Neither \<^verbatim>\<open>can_sit\<close> method
  inspects the class of its collaborator or raises, so the call has a result for both
  mismatched pairs; the results are given in full. The text between the parentheses
  is the chair's sentence: it contains the name of the chair's variant and not the
  name of the sofa's.
\<close>

theorem cross_variant_collaboration:
  "Sofa_can_sit ModernSofa ClassicalChair =
     ''You can sit on it from Modern sofa, with collaborator (You can sit on it from Classical Chair)''
   \<and> Sofa_can_sit ClassicalSofa ModernChair =
     ''You can sit on it from Classical sofa, with collabortaor (You can sit on it from Modern Chair)''
   \<and> embedded (Sofa_can_sit ModernSofa ClassicalChair) = Chair_can_sit ClassicalChair
   \<and> embedded (Sofa_can_sit ClassicalSofa ModernChair) = Chair_can_sit ModernChair
   \<and> chair_variant ClassicalChair = Some Classical
   \<and> sofa_variant ModernSofa = Modern
   \<and> sublist (variant_name Classical)
       (embedded (Sofa_can_sit ModernSofa ClassicalChair))
   \<and> \<not> sublist (variant_name (sofa_variant ModernSofa))
       (embedded (Sofa_can_sit ModernSofa ClassicalChair))
   \<and> chair_variant ModernChair = Some Modern
   \<and> sofa_variant ClassicalSofa = Classical
   \<and> sublist (variant_name Modern)
       (embedded (Sofa_can_sit ClassicalSofa ModernChair))
   \<and> \<not> sublist (variant_name (sofa_variant ClassicalSofa))
       (embedded (Sofa_can_sit ClassicalSofa ModernChair))"
  by (simp add: embedded_def sublist_Cons_right)




end
